theory Spec2Isabelle
  imports Main "HOL-Library.Word" "HOL-Library.AList"
begin

section \<open>Data model (protos/state.proto)\<close>

text \<open>
  Every numeric field of the protobuf messages is a \<open>uint64\<close>: a 64-bit word whose
  arithmetic wraps around, as Go's does. Byte slices and Go strings are character lists.
\<close>

type_synonym u64 = "64 word"
type_synonym bytes = string

text \<open>message TxSetIndex\<close>

record TxSetIndex =
  blockNr :: u64
  inBlockIndex :: u64

text \<open>message TxSetStateValue\<close>

record TxSetStateValue =
  nonce :: u64
  introBlock :: u64
  lastModifiedAtBlock :: u64
  index :: u64
  txNumber :: u64
  indexAtBlock :: "TxSetIndex list"

text \<open>The Go zero value \<open>&protos.TxSetStateValue{}\<close>.\<close>

definition zeroTxSetStateValue :: TxSetStateValue where
  "zeroTxSetStateValue =
     \<lparr>nonce = 0, introBlock = 0, lastModifiedAtBlock = 0, index = 0, txNumber = 0,
      indexAtBlock = []\<rparr>"

section \<open>Errors and panics\<close>

text \<open>
  The ledger's error kinds (core/ledger, \<open>ErrorType\<close>).
\<close>

datatype ErrorType = InvalidArgument | OutOfBounds | ResourceNotFound | BlockNotFound

text \<open>
  One constructor for each place where the sources build an error value. The numbers a
  message formats with \<open>%d\<close> are the constructor's arguments; an error that wraps
  another one (\<open>fmt.Errorf("... %s", err)\<close>, \<open>newLedgerError(t, err.Error())\<close>)
  carries it. The Go text of each message:
  \<^item> \<open>LessTransactions\<close>: "The next state for this transactions set contains less
    transactions. ..." (current and other \<open>TxNumber\<close>);
  \<^item> \<open>WrongNextIndex\<close>: "The index of the new set is not correct. Expected: [%d],
    Actual: [%d]";
  \<^item> \<open>WrongNextBlock\<close>: "The block of the new set is not correct. Expected: [%d],
    Actual: [%d]";
  \<^item> \<open>ConflictingIndexInfo\<close>: "The next state for this transactions set contains
    conflicting index information at IndexAtBlock[%d]. ...";
  \<^item> \<open>IndexModifiedInExtension\<close>: "It is not possible to modify the index in a set
    extension.";
  \<^item> \<open>ModifiedBeforeLastModification\<close>: "It is not allow to modify a transaction
    before the last time it was modified. ...";
  \<^item> \<open>MutantCannotExtend\<close>: "A mutant transaction cannot extend a set.";
  \<^item> \<open>ActiveIndexDidNotChange\<close>: "Mutating, but the active index did not change.";
  \<^item> \<open>OutOfBoundNewIndex\<close>: "Provided an out of bound new index for the transaction.
    Num transactions: [%d], provided new index: [%d]";
  \<^item> \<open>BlockForIndexNotFound\<close>: "Block for index [%d] not found.";
  \<^item> \<open>EmptyStateValue\<close>: "An empty transaction set state value is not supported. ...";
  \<^item> \<open>PreviousStateRetrieval\<close>: "Error while trying to retrieve the previous state
    for txSetID='%s', err='%#v'";
  \<^item> \<open>WrongNonceUpdate\<close>: "Wrong nonce update. Previous nonce: %d, new nonce: %d";
  \<^item> \<open>IntroBlockModified\<close>: "A mutant transaction or an extension to a set cannot
    modify the intro block. Prev Intro Block: [%d], New Intro Block: [%d]";
  \<^item> \<open>AtLeastATransaction\<close>: "At least a transaction to execute should be provided.";
  \<^item> \<open>FailedToRetrieveTxSetState\<close>: "Failed to retrieve the txSet state, txID: %s,
    err: %s.";
  \<^item> \<open>CannotExtendNonExistentSet\<close>: "Cannot extend a non existent transactions set.";
  \<^item> \<open>UnableToCreateState\<close>: "Unable to create the state for the new set. Error: %s";
  \<^item> \<open>MutantForNonExistingSet\<close>: "Issuing a mutant transaction for a non-existing tx
    set id.";
  \<^item> \<open>NothingToMutate\<close>: "Nothing to mutate, the default index of the transactions set
    did not change.";
  \<^item> \<open>UnableToSetNewState\<close>: "Unable to set the new state for the Tx Set with ID: %s,
    err = %s";
  \<^item> \<open>UnableToRetrieveState\<close>: "Unable to retrieve the state for the tx set from the
    db. Tx Set Id: %s. Err: %s";
  \<^item> \<open>QueriedStateDoesNotExist\<close>: "The state queried does not exists. Tx set id: %s";
  \<^item> \<open>NotATransactionsSet\<close>: "The given transaction is not a transactions set.";
  \<^item> \<open>DefaultIndexInfoNotFound\<close>: "unable to find queried default transaction index
    info. [%s]";
  \<^item> \<open>SetNotAtDefaultBlock\<close>: "Unable to find given set at its current default
    block, txdi: %s";
  \<^item> \<open>NoTxSetInDefaultBlock\<close>: "The current default block does not contain a tx set
    for the given tx id (%s).";
  \<^item> \<open>External\<close>: an error of a collaborator that is not part of the sources (the
    database, the indexer, the chaincode VM), with its text.
\<close>

datatype error =
    LessTransactions u64 u64
  | WrongNextIndex u64 u64
  | WrongNextBlock u64 u64
  | ConflictingIndexInfo nat u64 u64 u64 u64
  | IndexModifiedInExtension
  | ModifiedBeforeLastModification u64 u64
  | MutantCannotExtend
  | ActiveIndexDidNotChange
  | OutOfBoundNewIndex u64 u64
  | BlockForIndexNotFound u64
  | EmptyStateValue
  | PreviousStateRetrieval string error
  | WrongNonceUpdate u64 u64
  | IntroBlockModified u64 u64
  | AtLeastATransaction
  | FailedToRetrieveTxSetState string error
  | CannotExtendNonExistentSet
  | UnableToCreateState error
  | MutantForNonExistingSet
  | NothingToMutate
  | UnableToSetNewState string error
  | UnableToRetrieveState string error
  | QueriedStateDoesNotExist string
  | NotATransactionsSet
  | DefaultIndexInfoNotFound error
  | SetNotAtDefaultBlock string
  | NoTxSetInDefaultBlock string
  | ErrOutOfBounds
  | External string
  | LedgerError ErrorType error

text \<open>
  Go panics. \<open>IndexOutOfRange i n\<close> is the runtime panic of reading position \<open>i\<close> of a
  slice of length \<open>n\<close>; reading position \<open>len - 1\<close> of an empty slice is recorded as
  \<open>IndexOutOfRangeNegative\<close> (index -1). \<open>NilDereference\<close> is reading a field through a
  nil pointer. The other three are the explicit \<open>panic(...)\<close> calls of txset_state.go.
\<close>

datatype panic =
    IndexOutOfRange nat nat
  | IndexOutOfRangeNegative
  | TxAlreadyInProgress string string
  | DifferentTxId string string
  | StateChangeOutsideTx
  | NilDereference

text \<open>
  What a call comes to: it returns normally, returns an error value, or panics.
\<close>

datatype 'a outcome = Ok 'a | Failed error | Panicked panic

section \<open>protos/txsetstatevalue.go\<close>

text \<open>
  A slice is modelled by the list of its elements: Go's nil slice and an empty slice are both
  \<open>[]\<close>, and \<open>reflect.DeepEqual\<close> on two slices of \<open>*TxSetIndex\<close> is equality of the
  lists (it compares the pointed-to messages field by field).
\<close>

text \<open>
  The comparison loop of \<open>IsValidBlockExtension\<close>: \<open>i\<close> is the position reached in the
  previous value's list, \<open>prev\<close> what is left of it, \<open>other\<close> the whole list of the new
  value. Reading \<open>other.IndexAtBlock[i]\<close> beyond the new list panics.
\<close>

fun compareIndexAtBlock :: "nat \<Rightarrow> TxSetIndex list \<Rightarrow> TxSetIndex list \<Rightarrow> unit outcome" where
  "compareIndexAtBlock i [] other = Ok ()"
| "compareIndexAtBlock i (indexInfo # prev) other =
     (if length other \<le> i then Panicked (IndexOutOfRange i (length other))
      else if blockNr indexInfo \<noteq> blockNr (other ! i)
              \<or> inBlockIndex indexInfo \<noteq> inBlockIndex (other ! i)
           then Failed (ConflictingIndexInfo i (blockNr indexInfo) (inBlockIndex indexInfo)
                          (blockNr (other ! i)) (inBlockIndex (other ! i)))
           else compareIndexAtBlock (Suc i) prev other)"

definition IsValidBlockExtension :: "TxSetStateValue \<Rightarrow> TxSetStateValue \<Rightarrow> unit outcome" where
  "IsValidBlockExtension txSetStateValue other =
     (if txNumber txSetStateValue > txNumber other
      then Failed (LessTransactions (txNumber txSetStateValue) (txNumber other))
      else if indexAtBlock other = [] then Panicked IndexOutOfRangeNegative
      else if inBlockIndex (last (indexAtBlock other)) \<noteq> txNumber other - 1
      then Failed (WrongNextIndex (txNumber other - 1) (inBlockIndex (last (indexAtBlock other))))
      else if blockNr (last (indexAtBlock other)) \<noteq> lastModifiedAtBlock other
      then Failed (WrongNextBlock (lastModifiedAtBlock other) (blockNr (last (indexAtBlock other))))
      else (case compareIndexAtBlock 0 (indexAtBlock txSetStateValue) (indexAtBlock other) of
              Ok u \<Rightarrow>
                (if introBlock txSetStateValue \<noteq> 0 \<and> index other \<noteq> index txSetStateValue
                 then Failed IndexModifiedInExtension
                 else Ok ())
            | Failed e \<Rightarrow> Failed e
            | Panicked p \<Rightarrow> Panicked p))"

definition IsValidMutation :: "TxSetStateValue \<Rightarrow> TxSetStateValue \<Rightarrow> unit outcome" where
  "IsValidMutation txSetStateValue other =
     (if lastModifiedAtBlock txSetStateValue \<ge> lastModifiedAtBlock other
      then Failed (ModifiedBeforeLastModification (lastModifiedAtBlock txSetStateValue)
                     (lastModifiedAtBlock other))
      else if txNumber txSetStateValue \<noteq> txNumber other then Failed MutantCannotExtend
      else if index txSetStateValue = index other then Failed ActiveIndexDidNotChange
      else if index other \<ge> txNumber other
      then Failed (OutOfBoundNewIndex (txNumber other) (index other))
      else if indexAtBlock txSetStateValue \<noteq> indexAtBlock other then Failed MutantCannotExtend
      else Ok ())"

text \<open>
  Go's \<open>sort.Search(n, f)\<close> (standard library): the loop
  \<open>i, j := 0, n; for i < j { h := int(uint(i+j) >> 1); if !f(h) { i = h + 1 } else { j = h } }; return i\<close>.
  With \<open>0 \<le> i \<le> j \<le> n\<close> below Go's largest \<open>int\<close> the midpoint is \<open>(i + j) div 2\<close>.
\<close>

function searchLoop :: "(nat \<Rightarrow> bool) \<Rightarrow> nat \<Rightarrow> nat \<Rightarrow> nat" where
  "searchLoop f i j =
     (if i < j
      then (let h = (i + j) div 2 in
            if \<not> f h then searchLoop f (h + 1) j else searchLoop f i h)
      else i)"
  by pat_completeness auto
termination
  by (relation "measure (\<lambda>(f, i, j). j - i)") auto

declare searchLoop.simps [simp del]

definition Search :: "nat \<Rightarrow> (nat \<Rightarrow> bool) \<Rightarrow> nat" where
  "Search n f = searchLoop f 0 n"

text \<open>
  \<open>PositionForIndex\<close> returns the position and, when the position is the length of the
  list, an error as well. The closure reads \<open>IndexAtBlock[i]\<close> only at midpoints, which
  are inside the list.
\<close>

definition PositionForIndex :: "TxSetStateValue \<Rightarrow> u64 \<Rightarrow> nat \<times> error option" where
  "PositionForIndex txSetStateValue inx =
     (let i = Search (length (indexAtBlock txSetStateValue))
                (\<lambda>i. inx \<le> inBlockIndex (indexAtBlock txSetStateValue ! i))
      in if i < length (indexAtBlock txSetStateValue) then (i, None)
         else (i, Some (BlockForIndexNotFound inx)))"

text \<open>
  Modelled from the spec: \<open>BlockForIndex\<close> is called by \<open>GetCurrentDefault\<close> but is not
  defined in the sources, which hold only \<open>PositionForIndex\<close>. The specification (section
  4.6) has it run the binary search of \<open>PositionForIndex\<close> and fail when no position is
  found; the resolver then takes the block number of the entry found and subtracts from the
  active index the first index of that entry: \<open>0\<close> for the first entry, the previous
  entry's \<open>inBlockIndex + 1\<close> otherwise. \<open>GetCurrentDefault\<close> reads both from the value
  returned, as \<open>BlockNr\<close> and \<open>InBlockIndex\<close>.
\<close>

definition BlockForIndex :: "TxSetStateValue \<Rightarrow> u64 \<Rightarrow> error + TxSetIndex" where
  "BlockForIndex txSetStateValue inx =
     (case PositionForIndex txSetStateValue inx of
        (i, Some err) \<Rightarrow> Inl err
      | (i, None) \<Rightarrow>
          Inr \<lparr>blockNr = blockNr (indexAtBlock txSetStateValue ! i),
               inBlockIndex =
                 (if i = 0 then 0
                  else inBlockIndex (indexAtBlock txSetStateValue ! (i - 1)) + 1)\<rparr>)"

section \<open>The delta of the tx-set state (package statemgmt)\<close>

text \<open>
  Modelled from the spec: the package \<open>statemgmt\<close> with \<open>TxSetStateDelta\<close> and
  \<open>UpdatedValue\<close> is not among the sources; txset_state.go only calls it. Section 4.2 of
  the specification gives \<open>UpdatedValue = {previous, value, isMutant}\<close> with both values
  optional; the field names \<open>Value\<close> and \<open>IsMutant\<close> are those \<open>GetOlderBlockMod\<close> reads.
  A delta maps set identifiers to updated values; it is kept as an association list, so
  that the identifiers can be enumerated (\<open>GetUpdatedTxSetIDs\<close>). Only the first entry of
  an identifier counts.
\<close>

record UpdatedValue =
  PreviousValue :: "TxSetStateValue option"
  Value :: "TxSetStateValue option"
  IsMutant :: bool

type_synonym TxSetStateDelta = "(string \<times> UpdatedValue) list"

text \<open>Modelled from the spec: a new delta records no update.\<close>

definition NewTxSetStateDelta :: TxSetStateDelta where
  "NewTxSetStateDelta = []"

text \<open>Modelled from the spec: \<open>get(k)\<close> returns an \<open>UpdatedValue\<close> or nothing.\<close>

definition TxSetStateDelta_Get :: "TxSetStateDelta \<Rightarrow> string \<Rightarrow> UpdatedValue option" where
  "TxSetStateDelta_Get delta txSetID = map_of delta txSetID"

text \<open>Modelled from the spec: \<open>isUpdatedValueSet(k)\<close> is true if already recorded.\<close>

definition IsUpdatedValueSet :: "TxSetStateDelta \<Rightarrow> string \<Rightarrow> bool" where
  "IsUpdatedValueSet delta txSetID = (map_of delta txSetID \<noteq> None)"

text \<open>
  Modelled from the spec: \<open>set(k, new, prev)\<close> records an update and sets
  \<open>isMutant = (prev.present && new.txNumber == prev.txNumber && new.index != prev.index)\<close>.
\<close>

definition TxSetStateDelta_Set ::
  "TxSetStateDelta \<Rightarrow> string \<Rightarrow> TxSetStateValue \<Rightarrow> TxSetStateValue option \<Rightarrow> TxSetStateDelta" where
  "TxSetStateDelta_Set delta txSetID new prev =
     AList.update txSetID
       \<lparr>PreviousValue = prev, Value = Some new,
        IsMutant = (case prev of None \<Rightarrow> False
                    | Some p \<Rightarrow> txNumber new = txNumber p \<and> index new \<noteq> index p)\<rparr>
       delta"

text \<open>
  Modelled from the spec: \<open>applyChanges(other)\<close> merges \<open>other\<close> into this delta, the
  later write winning for the keys \<open>other\<close> sets: every update of \<open>other\<close> is recorded in
  this delta and the other identifiers keep their update.
\<close>

definition ApplyChanges :: "TxSetStateDelta \<Rightarrow> TxSetStateDelta \<Rightarrow> TxSetStateDelta" where
  "ApplyChanges delta other = foldr (\<lambda>(k, uv) d. AList.update k uv d) other delta"

text \<open>Modelled from the spec: the delta has no update.\<close>

definition IsEmpty :: "TxSetStateDelta \<Rightarrow> bool" where
  "IsEmpty delta = (delta = [])"

text \<open>
  Modelled from the spec: the identifiers with an update, in the order of the association
  list (Go enumerates a map in no fixed order), and the update of one identifier.
\<close>

definition GetUpdatedTxSetIDs :: "TxSetStateDelta \<Rightarrow> string list" where
  "GetUpdatedTxSetIDs delta = remdups (map fst delta)"

definition GetUpdates :: "TxSetStateDelta \<Rightarrow> string \<Rightarrow> UpdatedValue option" where
  "GetUpdates delta txSetID = map_of delta txSetID"

section \<open>core/ledger/state/txsetst/txset_state.go\<close>

text \<open>
  \<open>txSetStateImpl\<close> is the backing implementation (package raw, not among the sources),
  seen through the one method the store calls on reads: \<open>Get(txID)\<close>, which returns an
  error or the value persisted for the identifier, if any. It hands out a value of its
  own, never a reference to one held by a delta. \<open>txStateDeltaHash\<close> keeps for a
  transaction the delta whose \<open>ComputeCryptoHash\<close> was stored (\<open>Some None\<close> is the \<open>nil\<close>
  entry). \<open>warnings\<close> is not a field of the Go struct: it is the text the logger received
  at warning level.
\<close>

record TxSetState =
  txSetStateImpl :: "string \<Rightarrow> error + TxSetStateValue option"
  txSetStateDelta :: TxSetStateDelta
  currentTxSetStateDelta :: TxSetStateDelta
  currentTxID :: string
  txStateDeltaHash :: "string \<Rightarrow> TxSetStateDelta option option"
  updateStateImpl :: bool
  historyStateDeltaSize :: u64
  warnings :: "string list"

definition txInProgress :: "TxSetState \<Rightarrow> bool" where
  "txInProgress state = (currentTxID state \<noteq> [])"

definition TxBegin :: "TxSetState \<Rightarrow> string \<Rightarrow> unit outcome \<times> TxSetState" where
  "TxBegin state txID =
     (if txInProgress state then (Panicked (TxAlreadyInProgress (currentTxID state) txID), state)
      else (Ok (), state\<lparr>currentTxID := txID\<rparr>))"

definition TxFinish :: "TxSetState \<Rightarrow> string \<Rightarrow> bool \<Rightarrow> unit outcome \<times> TxSetState" where
  "TxFinish state txID txSuccessful =
     (if currentTxID state \<noteq> txID then (Panicked (DifferentTxId (currentTxID state) txID), state)
      else
        (let state1 =
           (if txSuccessful
            then (if \<not> IsEmpty (currentTxSetStateDelta state)
                  then state\<lparr>txSetStateDelta :=
                                ApplyChanges (txSetStateDelta state) (currentTxSetStateDelta state),
                              txStateDeltaHash :=
                                (txStateDeltaHash state)(txID \<mapsto> Some (currentTxSetStateDelta state)),
                              updateStateImpl := True\<rparr>
                  else state\<lparr>txStateDeltaHash := (txStateDeltaHash state)(txID \<mapsto> None)\<rparr>)
            else state)
         in (Ok (), state1\<lparr>currentTxSetStateDelta := NewTxSetStateDelta, currentTxID := []\<rparr>)))"

definition TxSetState_Get ::
  "TxSetState \<Rightarrow> string \<Rightarrow> bool \<Rightarrow> error + TxSetStateValue option" where
  "TxSetState_Get state txID committed =
     (if \<not> committed
      then (case TxSetStateDelta_Get (currentTxSetStateDelta state) txID of
              Some valueHolder \<Rightarrow> Inr (Value valueHolder)
            | None \<Rightarrow>
                (case TxSetStateDelta_Get (txSetStateDelta state) txID of
                   Some valueHolder \<Rightarrow> Inr (Value valueHolder)
                 | None \<Rightarrow> txSetStateImpl state txID))
      else txSetStateImpl state txID)"

definition TxSetState_Set ::
  "TxSetState \<Rightarrow> string \<Rightarrow> TxSetStateValue \<Rightarrow> unit outcome \<times> TxSetState" where
  "TxSetState_Set state txSetID stateValue =
     (if \<not> txInProgress state then (Panicked StateChangeOutsideTx, state)
      else if IsUpdatedValueSet (currentTxSetStateDelta state) txSetID
              \<or> IsUpdatedValueSet (txSetStateDelta state) txSetID
      then (Ok (),
            state\<lparr>warnings := warnings state @
              [''Potential dependency cycle avoided by not changing an already modified tx set value'']\<rparr>)
      else (case TxSetState_Get state txSetID True of
              Inl err \<Rightarrow> (Failed err, state)
            | Inr previousValue \<Rightarrow>
                (Ok (),
                 state\<lparr>currentTxSetStateDelta :=
                   TxSetStateDelta_Set (currentTxSetStateDelta state) txSetID stateValue
                     previousValue\<rparr>)))"

text \<open>
  \<open>GetOlderBlockMod\<close>: the loop over the identifiers of the per-block delta, with the
  local variables \<open>older\<close> and \<open>isSet\<close> as accumulator. \<open>updates.Value.IntroBlock\<close> on an
  update without a value is a nil dereference.
\<close>

fun olderBlockModLoop ::
  "TxSetStateDelta \<Rightarrow> string list \<Rightarrow> u64 \<times> bool \<Rightarrow> (u64 \<times> bool) outcome" where
  "olderBlockModLoop delta [] (older, isSet) = Ok (older, isSet)"
| "olderBlockModLoop delta (stID # ids) (older, isSet) =
     (case GetUpdates delta stID of
        None \<Rightarrow> Panicked NilDereference
      | Some updates \<Rightarrow>
          (if \<not> IsMutant updates then olderBlockModLoop delta ids (older, isSet)
           else (case Value updates of
                   None \<Rightarrow> Panicked NilDereference
                 | Some v \<Rightarrow>
                     (let older1 = (if \<not> isSet then introBlock v else older) in
                      olderBlockModLoop delta ids
                        (if introBlock v < older1 then introBlock v else older1, True)))))"

definition GetOlderBlockMod :: "TxSetState \<Rightarrow> (u64 \<times> bool) outcome" where
  "GetOlderBlockMod state =
     olderBlockModLoop (txSetStateDelta state) (GetUpdatedTxSetIDs (txSetStateDelta state))
       (0, False)"

section \<open>core/ledger: the ledger\<close>

text \<open>
  The transactions of a block (protos, \<open>InBlockTransaction\<close>): an identifier and one of
  three variants, or none. The fields \<open>ConfidentialityLevel\<close> and \<open>Nonce\<close> are read only
  by the decryption of a candidate, which belongs to the collaborator that executes it
  (\<open>vm\<close> below), so they are not represented.
\<close>

record TransactionSet =
  Transactions :: "bytes list"
  DefaultInx :: u64
  Extend :: bool

datatype isInBlockTransaction_Transaction =
    InBlockTransaction_TransactionSet TransactionSet
  | InBlockTransaction_MutantTransaction string u64
  | InBlockTransaction_SetStQueryTransaction string
  | InBlockTransaction_None

record InBlockTransaction =
  Txid :: string
  Transaction :: isInBlockTransaction_Transaction

text \<open>
  Modelled from the spec: core/ledger/blockchain.go is not among the sources. The record
  holds what the ledger's methods read from the block log: its size, the resetting flag
  and the block reached by a replay, the indexer's table from a transaction identifier to
  \<open>{blockNr -> inBlockIndex}\<close>, and the transactions of a stored block.
\<close>

record Blockchain =
  blockchainSize :: u64
  isResetting :: bool
  sizeReset :: u64
  fetchTransactionIndexMap :: "string \<Rightarrow> error + (u64 \<Rightarrow> u64 option)"
  getBlock :: "u64 \<Rightarrow> error + InBlockTransaction list"

text \<open>
  The ledger. The chaincode state is the business of the chaincode VM and has an
  arbitrary type \<open>'c\<close>.
\<close>

record 'c Ledger =
  blockchain :: Blockchain
  chaincodeState :: 'c
  txSetState :: TxSetState

definition SetTxBegin :: "'c Ledger \<Rightarrow> string \<Rightarrow> unit outcome \<times> 'c Ledger" where
  "SetTxBegin ledger txID =
     (case TxBegin (txSetState ledger) txID of (r, s) \<Rightarrow> (r, ledger\<lparr>txSetState := s\<rparr>))"

definition SetTxFinished :: "'c Ledger \<Rightarrow> string \<Rightarrow> bool \<Rightarrow> unit outcome \<times> 'c Ledger" where
  "SetTxFinished ledger txID txSuccessful =
     (case TxFinish (txSetState ledger) txID txSuccessful of
        (r, s) \<Rightarrow> (r, ledger\<lparr>txSetState := s\<rparr>))"

definition GetTxSetState ::
  "'c Ledger \<Rightarrow> string \<Rightarrow> bool \<Rightarrow> error + TxSetStateValue option" where
  "GetTxSetState ledger txSetID committed = TxSetState_Get (txSetState ledger) txSetID committed"

definition GetOlderTBModBlock :: "'c Ledger \<Rightarrow> (u64 \<times> bool) outcome" where
  "GetOlderTBModBlock ledger = GetOlderBlockMod (txSetState ledger)"

text \<open>
  \<open>SetTxSetState\<close>, the writer that enforces the invariants. The argument is a pointer
  and may be nil (\<open>None\<close>).
\<close>

definition SetTxSetState ::
  "'c Ledger \<Rightarrow> string \<Rightarrow> TxSetStateValue option \<Rightarrow> unit outcome \<times> 'c Ledger" where
  "SetTxSetState ledger txSetID txSetStateValue =
     (case txSetStateValue of
        None \<Rightarrow> (Failed (LedgerError InvalidArgument EmptyStateValue), ledger)
      | Some new \<Rightarrow>
          (case GetTxSetState ledger txSetID True of
             Inl err \<Rightarrow>
               (Failed (LedgerError ResourceNotFound (PreviousStateRetrieval txSetID err)), ledger)
           | Inr stored \<Rightarrow>
               (let previousValue = (case stored of None \<Rightarrow> zeroTxSetStateValue | Some p \<Rightarrow> p) in
                if nonce new \<noteq> nonce previousValue + 1
                then (Failed (LedgerError InvalidArgument
                                (WrongNonceUpdate (nonce previousValue) (nonce new))), ledger)
                else if introBlock previousValue \<noteq> 0
                        \<and> introBlock previousValue \<noteq> introBlock new
                then (Failed (LedgerError InvalidArgument
                                (IntroBlockModified (introBlock previousValue) (introBlock new))),
                      ledger)
                else (case (if introBlock previousValue \<noteq> 0 \<and> index previousValue \<noteq> index new
                            then IsValidMutation previousValue new
                            else IsValidBlockExtension previousValue new) of
                        Failed err \<Rightarrow> (Failed (LedgerError InvalidArgument err), ledger)
                      | Panicked p \<Rightarrow> (Panicked p, ledger)
                      | Ok u \<Rightarrow>
                          (case TxSetState_Set (txSetState ledger) txSetID new of
                             (r, s) \<Rightarrow> (r, ledger\<lparr>txSetState := s\<rparr>))))))"

definition GetBlockchainSize :: "'c Ledger \<Rightarrow> u64" where
  "GetBlockchainSize ledger = blockchainSize (blockchain ledger)"

definition GetCurrentBlockEx :: "'c Ledger \<Rightarrow> u64" where
  "GetCurrentBlockEx ledger =
     (if isResetting (blockchain ledger) then sizeReset (blockchain ledger)
      else blockchainSize (blockchain ledger))"

definition IsResetting :: "'c Ledger \<Rightarrow> bool" where
  "IsResetting ledger = isResetting (blockchain ledger)"

definition GetBlockByNumber :: "'c Ledger \<Rightarrow> u64 \<Rightarrow> error + InBlockTransaction list" where
  "GetBlockByNumber ledger blockNumber =
     (if blockNumber \<ge> GetBlockchainSize ledger then Inl (LedgerError OutOfBounds ErrOutOfBounds)
      else getBlock (blockchain ledger) blockNumber)"

text \<open>
  What \<open>GetCurrentDefault\<close> selects, before it is decoded: the bytes of an encapsulated
  transaction (a set without state, decoded as a \<open>Transaction\<close>), or the bytes of a
  candidate specification together with the active index (the input of the decryption of
  a confidential set; decoded as a \<open>TxSpec\<close>). Decryption and decoding are the work of
  packages that are not among the sources and are left to \<open>vm\<close> below.
\<close>

datatype defaultTx = Encapsulated bytes | Specification bytes u64

text \<open>
  The block and the index in the block of the active candidate, as \<open>GetCurrentDefault\<close>
  computes them: \<open>defBlock := defInxInfo.BlockNr\<close> and
  \<open>inxAtBlock := txSetStValue.Index - defInxInfo.InBlockIndex\<close>.
\<close>

definition defaultPosition :: "TxSetStateValue \<Rightarrow> error + u64 \<times> u64" where
  "defaultPosition txSetStValue =
     (case BlockForIndex txSetStValue (index txSetStValue) of
        Inl err \<Rightarrow> Inl (DefaultIndexInfoNotFound err)
      | Inr defInxInfo \<Rightarrow>
          Inr (blockNr defInxInfo, index txSetStValue - inBlockIndex defInxInfo))"

text \<open>The candidate list of a transaction, if it is a transaction set.\<close>

definition GetTransactionSet :: "InBlockTransaction \<Rightarrow> TransactionSet option" where
  "GetTransactionSet inBlockTx =
     (case Transaction inBlockTx of
        InBlockTransaction_TransactionSet ts \<Rightarrow> Some ts
      | _ \<Rightarrow> None)"

text \<open>Reading a slice at a \<open>uint64\<close> position panics beyond its length.\<close>

definition at :: "'a list \<Rightarrow> u64 \<Rightarrow> 'a outcome" where
  "at xs i = (if unat i < length xs then Ok (xs ! unat i)
              else Panicked (IndexOutOfRange (unat i) (length xs)))"

definition GetCurrentDefault :: "'c Ledger \<Rightarrow> InBlockTransaction \<Rightarrow> bool \<Rightarrow> defaultTx outcome" where
  "GetCurrentDefault ledger inBlockTx committed =
     (case GetTxSetState ledger (Txid inBlockTx) committed of
        Inl err \<Rightarrow> Failed (FailedToRetrieveTxSetState (Txid inBlockTx) err)
      | Inr txSetStValue \<Rightarrow>
          (case (case GetTransactionSet inBlockTx of
                   None \<Rightarrow> Ok []
                 | Some ts \<Rightarrow> at (Transactions ts) (DefaultInx ts)) of
             Failed err \<Rightarrow> Failed err
           | Panicked p \<Rightarrow> Panicked p
           | Ok defTxBytes \<Rightarrow>
               (case txSetStValue of
                  None \<Rightarrow>
                    (case GetTransactionSet inBlockTx of
                       None \<Rightarrow> Failed NotATransactionsSet
                     | Some ts \<Rightarrow>
                         (if length (Transactions ts) = 0 then Failed NotATransactionsSet
                          else Ok (Encapsulated (Transactions ts ! 0))))
                | Some v \<Rightarrow>
                    (case defaultPosition v of
                       Inl err \<Rightarrow> Failed err
                     | Inr (defBlock, inxAtBlock) \<Rightarrow>
                         (if defBlock < GetBlockchainSize ledger
                          then (case fetchTransactionIndexMap (blockchain ledger) (Txid inBlockTx) of
                                  Inl err \<Rightarrow> Failed err
                                | Inr txIdxMap \<Rightarrow>
                                    (case txIdxMap defBlock of
                                       None \<Rightarrow> Failed (SetNotAtDefaultBlock (Txid inBlockTx))
                                     | Some txInx \<Rightarrow>
                                         (case GetBlockByNumber ledger defBlock of
                                            Inl err \<Rightarrow> Failed err
                                          | Inr block \<Rightarrow>
                                              (case at block txInx of
                                                 Failed err \<Rightarrow> Failed err
                                               | Panicked p \<Rightarrow> Panicked p
                                               | Ok txSet \<Rightarrow>
                                                   (case GetTransactionSet txSet of
                                                      None \<Rightarrow>
                                                        Failed (NoTxSetInDefaultBlock (Txid inBlockTx))
                                                    | Some ts \<Rightarrow>
                                                        (case at (Transactions ts) inxAtBlock of
                                                           Failed err \<Rightarrow> Failed err
                                                         | Panicked p \<Rightarrow> Panicked p
                                                         | Ok bs \<Rightarrow>
                                                             Ok (Specification bs (index v))))))))
                          else Ok (Specification defTxBytes (index v)))))))"

section \<open>core/chaincode/exectransaction.go: Execute\<close>

text \<open>
  What \<open>Execute\<close> returns beside the error: no payload, the payload of the chaincode's
  response, or the marshalled state of a set (kept as the value that is marshalled).
  Chaincode events are not represented.
\<close>

datatype response = NoPayload | Payload bytes | StateBytes TxSetStateValue

text \<open>
  The chaincode side of \<open>Execute\<close> (security pre-execution, deploy, launch, execution
  under a timeout, \<open>markTxBegin\<close> and \<open>markTxFinish\<close> on the chaincode state) is the work
  of \<open>ChaincodeSupport\<close>, which is not among the sources. It is a parameter \<open>vm\<close>: given
  the transaction, the candidate selected and the chaincode state, it gives the outcome
  and the new chaincode state. \<open>Execute\<close> returns, with its outcome, the list of the
  candidates it handed to \<open>vm\<close> and the ledger it leaves. The ledger is an argument:
  \<open>ledger.GetLedger()\<close> is taken to have succeeded.
\<close>

type_synonym 'c VM = "InBlockTransaction \<Rightarrow> defaultTx \<Rightarrow> 'c \<Rightarrow> response outcome \<times> 'c"

text \<open>
  \<open>GetTxSetState(id, false)\<close> returns the pointer held by the update of a delta when a
  delta has one, so the assignments \<open>Execute\<close> makes to the fields of the value it read
  are assignments to the value inside that delta. \<open>storeThroughAlias\<close> writes the value back
  where it was read from; a value read from the backing implementation is not shared.
\<close>

definition storeThroughAlias :: "TxSetState \<Rightarrow> string \<Rightarrow> TxSetStateValue \<Rightarrow> TxSetState" where
  "storeThroughAlias state txID v =
     (case TxSetStateDelta_Get (currentTxSetStateDelta state) txID of
        Some valueHolder \<Rightarrow>
          state\<lparr>currentTxSetStateDelta :=
            AList.update txID (valueHolder\<lparr>Value := Some v\<rparr>) (currentTxSetStateDelta state)\<rparr>
      | None \<Rightarrow>
          (case TxSetStateDelta_Get (txSetStateDelta state) txID of
             Some valueHolder \<Rightarrow>
               state\<lparr>txSetStateDelta :=
                 AList.update txID (valueHolder\<lparr>Value := Some v\<rparr>) (txSetStateDelta state)\<rparr>
           | None \<Rightarrow> state))"

text \<open>
  The value \<open>Execute\<close> builds for a transaction set: a fresh value with \<open>IntroBlock\<close> and
  \<open>Index\<close> set when the set did not exist, then \<open>Nonce++\<close>, \<open>TxNumber += len\<close>, one more
  entry of \<open>IndexAtBlock\<close> and \<open>LastModifiedAtBlock\<close>.
\<close>

definition updatedTxSetStValue ::
  "TxSetStateValue option \<Rightarrow> TransactionSet \<Rightarrow> u64 \<Rightarrow> TxSetStateValue" where
  "updatedTxSetStValue txSetStValue ts nextBlockNr =
     (let v0 = (case txSetStValue of
                  None \<Rightarrow> zeroTxSetStateValue\<lparr>introBlock := nextBlockNr, index := DefaultInx ts\<rparr>
                | Some v \<Rightarrow> v);
          v1 = v0\<lparr>nonce := nonce v0 + 1\<rparr>;
          txInSet = (word_of_nat (length (Transactions ts)) :: u64);
          v2 = v1\<lparr>txNumber := txNumber v1 + txInSet\<rparr>;
          v3 = v2\<lparr>indexAtBlock := indexAtBlock v2 @
                      [\<lparr>blockNr = nextBlockNr, inBlockIndex = txNumber v2 - 1\<rparr>]\<rparr>
      in v3\<lparr>lastModifiedAtBlock := nextBlockNr\<rparr>)"

text \<open>Lines 89 to 187: an extension is not executed; otherwise the current default is.\<close>

definition executeDefault ::
  "'c VM \<Rightarrow> 'c Ledger \<Rightarrow> InBlockTransaction \<Rightarrow> TransactionSet
     \<Rightarrow> response outcome \<times> defaultTx list \<times> 'c Ledger" where
  "executeDefault vm ledger inBlockTx ts =
     (if Extend ts then (Ok NoPayload, [], ledger)
      else (case GetCurrentDefault ledger inBlockTx False of
              Failed err \<Rightarrow> (Failed err, [], ledger)
            | Panicked p \<Rightarrow> (Panicked p, [], ledger)
            | Ok defTx \<Rightarrow>
                (case vm inBlockTx defTx (chaincodeState ledger) of
                   (r, c) \<Rightarrow> (r, [defTx], ledger\<lparr>chaincodeState := c\<rparr>))))"

text \<open>The case \<open>*pb.InBlockTransaction_TransactionSet\<close>.\<close>

definition executeTransactionSet ::
  "'c VM \<Rightarrow> 'c Ledger \<Rightarrow> InBlockTransaction \<Rightarrow> TransactionSet \<Rightarrow> u64
     \<Rightarrow> response outcome \<times> defaultTx list \<times> 'c Ledger" where
  "executeTransactionSet vm ledger inBlockTx ts nextBlockNr =
     (if length (Transactions ts) = 0 then (Failed AtLeastATransaction, [], ledger)
      else
       (case GetTxSetState ledger (Txid inBlockTx) False of
          Inl err \<Rightarrow> (Failed (FailedToRetrieveTxSetState (Txid inBlockTx) err), [], ledger)
        | Inr txSetStValue \<Rightarrow>
            (let txSetExistedAlready = (txSetStValue \<noteq> None) in
             if \<not> IsResetting ledger \<and> (txSetExistedAlready \<or> length (Transactions ts) > 1)
             then
               (if \<not> txSetExistedAlready \<and> Extend ts
                then (Failed CannotExtendNonExistentSet, [], ledger)
                else
                 (case SetTxBegin ledger (Txid inBlockTx) of
                    (Panicked p, ledger1) \<Rightarrow> (Panicked p, [], ledger1)
                  | (Failed err, ledger1) \<Rightarrow> (Failed err, [], ledger1)
                  | (Ok u, ledger1) \<Rightarrow>
                      (let new = updatedTxSetStValue txSetStValue ts nextBlockNr;
                           ledger2 =
                             (if txSetExistedAlready
                              then ledger1\<lparr>txSetState :=
                                     storeThroughAlias (txSetState ledger1) (Txid inBlockTx) new\<rparr>
                              else ledger1)
                       in case SetTxSetState ledger2 (Txid inBlockTx) (Some new) of
                            (Panicked p, ledger3) \<Rightarrow> (Panicked p, [], ledger3)
                          | (Failed err, ledger3) \<Rightarrow>
                              (case SetTxFinished ledger3 (Txid inBlockTx) False of
                                 (Panicked p, ledger4) \<Rightarrow> (Panicked p, [], ledger4)
                               | (_, ledger4) \<Rightarrow> (Failed (UnableToCreateState err), [], ledger4))
                          | (Ok u, ledger3) \<Rightarrow>
                              (case SetTxFinished ledger3 (Txid inBlockTx) True of
                                 (Panicked p, ledger4) \<Rightarrow> (Panicked p, [], ledger4)
                               | (_, ledger4) \<Rightarrow>
                                   (if introBlock new \<noteq> nextBlockNr
                                    then (Ok NoPayload, [], ledger4)
                                    else executeDefault vm ledger4 inBlockTx ts)))))
             else executeDefault vm ledger inBlockTx ts)))"

text \<open>The case \<open>*pb.InBlockTransaction_MutantTransaction\<close>.\<close>

definition finishWith ::
  "'c Ledger \<Rightarrow> string \<Rightarrow> bool \<Rightarrow> response outcome
     \<Rightarrow> response outcome \<times> defaultTx list \<times> 'c Ledger" where
  "finishWith ledger txID txSuccessful result =
     (case SetTxFinished ledger txID txSuccessful of
        (Panicked p, ledger1) \<Rightarrow> (Panicked p, [], ledger1)
      | (_, ledger1) \<Rightarrow> (result, [], ledger1))"

definition executeMutantTransaction ::
  "'c Ledger \<Rightarrow> InBlockTransaction \<Rightarrow> string \<Rightarrow> u64 \<Rightarrow> u64
     \<Rightarrow> response outcome \<times> defaultTx list \<times> 'c Ledger" where
  "executeMutantTransaction ledger inBlockTx txSetID txSetIndex nextBlockNr =
     (if IsResetting ledger then (Ok NoPayload, [], ledger)
      else
       (case SetTxBegin ledger (Txid inBlockTx) of
          (Panicked p, ledger1) \<Rightarrow> (Panicked p, [], ledger1)
        | (Failed err, ledger1) \<Rightarrow> (Failed err, [], ledger1)
        | (Ok u, ledger1) \<Rightarrow>
            (case GetTxSetState ledger1 txSetID True of
               Inl err \<Rightarrow>
                 finishWith ledger1 (Txid inBlockTx) False
                   (Failed (FailedToRetrieveTxSetState (Txid inBlockTx) err))
             | Inr None \<Rightarrow>
                 finishWith ledger1 (Txid inBlockTx) False (Failed MutantForNonExistingSet)
             | Inr (Some txSetStValue) \<Rightarrow>
                 (if index txSetStValue = txSetIndex
                  then finishWith ledger1 (Txid inBlockTx) False (Failed NothingToMutate)
                  else
                   (let new = txSetStValue\<lparr>nonce := nonce txSetStValue + 1, index := txSetIndex,
                                            lastModifiedAtBlock := nextBlockNr\<rparr>
                    in case SetTxSetState ledger1 txSetID (Some new) of
                         (Panicked p, ledger2) \<Rightarrow> (Panicked p, [], ledger2)
                       | (Failed err, ledger2) \<Rightarrow>
                           finishWith ledger2 (Txid inBlockTx) False
                             (Failed (UnableToSetNewState txSetID err))
                       | (Ok u, ledger2) \<Rightarrow>
                           finishWith ledger2 (Txid inBlockTx) True (Ok NoPayload))))))"

text \<open>The case \<open>*pb.InBlockTransaction_SetStQueryTransaction\<close>.\<close>

definition executeSetStQueryTransaction ::
  "'c Ledger \<Rightarrow> string \<Rightarrow> response outcome \<times> defaultTx list \<times> 'c Ledger" where
  "executeSetStQueryTransaction ledger txSetID =
     (case GetTxSetState ledger txSetID True of
        Inl err \<Rightarrow> (Failed (UnableToRetrieveState txSetID err), [], ledger)
      | Inr None \<Rightarrow> (Failed (QueriedStateDoesNotExist txSetID), [], ledger)
      | Inr (Some v) \<Rightarrow> (Ok (StateBytes v), [], ledger))"

definition Execute ::
  "'c VM \<Rightarrow> 'c Ledger \<Rightarrow> InBlockTransaction \<Rightarrow> response outcome \<times> defaultTx list \<times> 'c Ledger" where
  "Execute vm ledger inBlockTx =
     (let nextBlockNr = GetCurrentBlockEx ledger in
      case Transaction inBlockTx of
        InBlockTransaction_TransactionSet ts \<Rightarrow>
          executeTransactionSet vm ledger inBlockTx ts nextBlockNr
      | InBlockTransaction_MutantTransaction txSetID txSetIndex \<Rightarrow>
          executeMutantTransaction ledger inBlockTx txSetID txSetIndex nextBlockNr
      | InBlockTransaction_SetStQueryTransaction txSetID \<Rightarrow>
          executeSetStQueryTransaction ledger txSetID
      | InBlockTransaction_None \<Rightarrow> (Ok NoPayload, [], ledger))"

section \<open>Example states\<close>

text \<open>
  A backing implementation that holds the listed values and never fails, a store over it
  with nothing staged and no transaction open, and a ledger of \<open>n\<close> blocks over that
  store whose chaincode state carries no information.
\<close>

definition storeOf :: "(string \<times> TxSetStateValue) list \<Rightarrow> string \<Rightarrow> error + TxSetStateValue option" where
  "storeOf kvs txID = Inr (map_of kvs txID)"

definition stateOver :: "(string \<times> TxSetStateValue) list \<Rightarrow> TxSetState" where
  "stateOver kvs =
     \<lparr>txSetStateImpl = storeOf kvs, txSetStateDelta = NewTxSetStateDelta,
      currentTxSetStateDelta = NewTxSetStateDelta, currentTxID = [],
      txStateDeltaHash = (\<lambda>txID. None), updateStateImpl = False,
      historyStateDeltaSize = 0, warnings = []\<rparr>"

definition ledgerAt :: "u64 \<Rightarrow> (string \<times> TxSetStateValue) list \<Rightarrow> unit Ledger" where
  "ledgerAt n kvs =
     \<lparr>blockchain = \<lparr>blockchainSize = n, isResetting = False, sizeReset = 0,
                     fetchTransactionIndexMap = (\<lambda>txID. Inr (\<lambda>b. None)),
                     getBlock = (\<lambda>b. Inr [])\<rparr>,
      chaincodeState = (), txSetState = stateOver kvs\<rparr>"

text \<open>A chaincode VM that accepts every candidate and changes nothing.\<close>

definition idleVM :: "unit VM" where
  "idleVM inBlockTx defTx c = (Ok NoPayload, c)"

text \<open>
  The state of a set of three candidates introduced in block 3 and extended by two
  candidates in block 5 (scenarios S1 and S2 of the specification).
\<close>

definition afterIntroduction :: TxSetStateValue where
  "afterIntroduction =
     \<lparr>nonce = 1, introBlock = 3, lastModifiedAtBlock = 3, index = 1, txNumber = 3,
      indexAtBlock = [\<lparr>blockNr = 3, inBlockIndex = 2\<rparr>]\<rparr>"

definition afterExtension :: TxSetStateValue where
  "afterExtension =
     \<lparr>nonce = 2, introBlock = 3, lastModifiedAtBlock = 5, index = 1, txNumber = 5,
      indexAtBlock = [\<lparr>blockNr = 3, inBlockIndex = 2\<rparr>, \<lparr>blockNr = 5, inBlockIndex = 4\<rparr>]\<rparr>"


text \<open>
  Inputs of the writer whose \<open>indexAtBlock\<close> is too short: a first value with an empty
  list, and a value with one entry written over a stored value with two.
\<close>

definition emptyNew :: TxSetStateValue where
  "emptyNew = zeroTxSetStateValue\<lparr>nonce := 1\<rparr>"

definition longPrev :: TxSetStateValue where
  "longPrev =
     \<lparr>nonce = 1, introBlock = 3, lastModifiedAtBlock = 5, index = 1, txNumber = 5,
      indexAtBlock = [\<lparr>blockNr = 3, inBlockIndex = 4\<rparr>, \<lparr>blockNr = 5, inBlockIndex = 4\<rparr>]\<rparr>"

definition shortNew :: TxSetStateValue where
  "shortNew =
     \<lparr>nonce = 2, introBlock = 3, lastModifiedAtBlock = 3, index = 1, txNumber = 5,
      indexAtBlock = [\<lparr>blockNr = 3, inBlockIndex = 4\<rparr>]\<rparr>"

text \<open>The same ledger with the tx-set transaction \<open>txID\<close> open.\<close>

definition openLedger :: "u64 \<Rightarrow> (string \<times> TxSetStateValue) list \<Rightarrow> string \<Rightarrow> unit Ledger" where
  "openLedger n kvs txID = (ledgerAt n kvs)\<lparr>txSetState := (stateOver kvs)\<lparr>currentTxID := txID\<rparr>\<rparr>"

text \<open>A transaction set or extension, and a mutant transaction.\<close>

definition txSetOf :: "string \<Rightarrow> bytes list \<Rightarrow> u64 \<Rightarrow> bool \<Rightarrow> InBlockTransaction" where
  "txSetOf txID candidates defaultInx isExtension =
     \<lparr>Txid = txID,
      Transaction = InBlockTransaction_TransactionSet
                      \<lparr>Transactions = candidates, DefaultInx = defaultInx,
                       Extend = isExtension\<rparr>\<rparr>"


text \<open>
  A store with three persisted sets, an update of \<open>A\<close> staged by the open transaction, and
  updates of \<open>A\<close> and \<open>B\<close> in the per-block delta.
\<close>

definition layeredState :: TxSetState where
  "layeredState =
     (stateOver [(''A'', afterIntroduction), (''B'', afterIntroduction), (''C'', afterIntroduction)])
       \<lparr>currentTxSetStateDelta :=
          TxSetStateDelta_Set NewTxSetStateDelta ''A'' (afterIntroduction\<lparr>nonce := 2, index := 2\<rparr>)
            (Some afterIntroduction),
        txSetStateDelta :=
          TxSetStateDelta_Set
            (TxSetStateDelta_Set NewTxSetStateDelta ''A''
               (afterIntroduction\<lparr>nonce := 2, index := 0\<rparr>) (Some afterIntroduction))
            ''B'' (afterIntroduction\<lparr>nonce := 2, index := 0\<rparr>) (Some afterIntroduction),
        currentTxID := ''tx''\<rparr>"


text \<open>
  A set of three candidates introduced in block 0 with default index 1, as \<open>Execute\<close>
  stores it; a next value for it that changes \<open>index\<close> and \<open>introBlock\<close>; and the ledger
  after that value went through \<open>SetTxBegin\<close>, \<open>SetTxSetState\<close> and \<open>SetTxFinished\<close>.
\<close>

definition atGenesis :: TxSetStateValue where
  "atGenesis =
     \<lparr>nonce = 1, introBlock = 0, lastModifiedAtBlock = 0, index = 1, txNumber = 3,
      indexAtBlock = [\<lparr>blockNr = 0, inBlockIndex = 2\<rparr>]\<rparr>"

definition movedIntro :: TxSetStateValue where
  "movedIntro = atGenesis\<lparr>nonce := 2, introBlock := 5, index := 2\<rparr>"

definition afterMovedIntro :: "unit Ledger" where
  "afterMovedIntro =
     snd (SetTxFinished
            (snd (SetTxSetState (openLedger 6 [(''G'', atGenesis)] ''w1'') ''G'' (Some movedIntro)))
            ''w1'' True)"

text \<open>
  A per-block delta with a mutation of a set introduced in block 3, an extension of a set
  introduced in block 1 and a mutation of a set introduced in block 2.
\<close>

definition mixedState :: TxSetState where
  "mixedState =
     (stateOver [])
       \<lparr>txSetStateDelta :=
          [(''A'', \<lparr>PreviousValue = Some afterExtension,
                    Value = Some (afterExtension\<lparr>nonce := 3, index := 2, lastModifiedAtBlock := 7\<rparr>),
                    IsMutant = True\<rparr>),
           (''B'', \<lparr>PreviousValue = Some (afterIntroduction\<lparr>introBlock := 1\<rparr>),
                    Value = Some (afterExtension\<lparr>introBlock := 1\<rparr>),
                    IsMutant = False\<rparr>),
           (''C'', \<lparr>PreviousValue = Some (afterExtension\<lparr>introBlock := 2\<rparr>),
                    Value = Some (afterExtension\<lparr>nonce := 3, introBlock := 2, index := 0,
                                                 lastModifiedAtBlock := 7\<rparr>),
                    IsMutant = True\<rparr>)]\<rparr>"


section \<open>The words of the specification\<close>




text \<open>
  The \<open>introBlock\<close> of the new values of the mutant-bearing updates a delta records for
  the identifiers \<open>ids\<close>, and for all identifiers.
\<close>

definition mutantIntroBlocksOf :: "TxSetStateDelta \<Rightarrow> string set \<Rightarrow> u64 set" where
  "mutantIntroBlocksOf delta ids =
     {introBlock v | stID uv v.
        stID \<in> ids \<and> GetUpdates delta stID = Some uv \<and> IsMutant uv \<and> Value uv = Some v}"

definition mutantIntroBlocks :: "TxSetStateDelta \<Rightarrow> u64 set" where
  "mutantIntroBlocks delta = mutantIntroBlocksOf delta UNIV"

section \<open>Unfolding the definitions\<close>

lemmas ledger_defs = ledgerAt_def stateOver_def storeOf_def NewTxSetStateDelta_def

lemmas store_defs = GetTxSetState_def TxSetState_Get_def TxSetStateDelta_Get_def TxSetState_Set_def
  txInProgress_def IsUpdatedValueSet_def TxSetStateDelta_Set_def SetTxBegin_def TxBegin_def
  SetTxFinished_def TxFinish_def IsEmpty_def ApplyChanges_def

lemmas exec_defs = Execute_def executeTransactionSet_def executeMutantTransaction_def
  executeSetStQueryTransaction_def executeDefault_def finishWith_def GetCurrentBlockEx_def
  IsResetting_def GetBlockchainSize_def SetTxSetState_def IsValidMutation_def
  IsValidBlockExtension_def zeroTxSetStateValue_def updatedTxSetStValue_def Let_def

section \<open>Binary search\<close>








section \<open>The current-default resolver\<close>





section \<open>The writer that enforces the invariants\<close>

text \<open>
  C4. With \<open>prev\<close> the value the backing store holds for the identifier, or the zero value
  when it holds none: a call of \<open>SetTxSetState\<close> with \<open>new.nonce \<noteq> prev.nonce + 1\<close> returns
  an \<open>InvalidArgument\<close> error and leaves the ledger, with the store and both deltas, as it
  was; and a call that returns without error has \<open>new.nonce = prev.nonce + 1\<close>.
\<close>

theorem SetTxSetState_nonce:
  assumes "txSetStateImpl (txSetState ledger) txSetID = Inr stored"
  shows "(nonce new \<noteq> nonce (case stored of None \<Rightarrow> zeroTxSetStateValue | Some p \<Rightarrow> p) + 1 \<longrightarrow>
            SetTxSetState ledger txSetID (Some new) =
              (Failed (LedgerError InvalidArgument
                 (WrongNonceUpdate
                    (nonce (case stored of None \<Rightarrow> zeroTxSetStateValue | Some p \<Rightarrow> p))
                    (nonce new))), ledger))
       \<and> (\<forall>ledger'. SetTxSetState ledger txSetID (Some new) = (Ok (), ledger') \<longrightarrow>
            nonce new = nonce (case stored of None \<Rightarrow> zeroTxSetStateValue | Some p \<Rightarrow> p) + 1)"
  using assms
  by (auto simp add: SetTxSetState_def GetTxSetState_def TxSetState_Get_def Let_def
      split: if_splits outcome.splits prod.splits)

text \<open>
  Over the state of scenario S2 (nonce 2), a value with nonce 7 is refused and the ledger
  stays as it was.
\<close>

theorem SetTxSetState_nonce_witness:
  "txSetStateImpl (txSetState (ledgerAt 6 [(''A'', afterExtension)])) ''A''
     = Inr (Some afterExtension)
   \<and> nonce (afterExtension\<lparr>nonce := 7\<rparr>) \<noteq> nonce afterExtension + 1
   \<and> SetTxSetState (ledgerAt 6 [(''A'', afterExtension)]) ''A''
         (Some (afterExtension\<lparr>nonce := 7\<rparr>))
       = (Failed (LedgerError InvalidArgument (WrongNonceUpdate 2 7)),
          ledgerAt 6 [(''A'', afterExtension)])"
proof -
  have i: "txSetStateImpl (txSetState (ledgerAt 6 [(''A'', afterExtension)])) ''A''
             = Inr (Some afterExtension)"
    by (simp add: ledgerAt_def stateOver_def storeOf_def)
  have n: "nonce (afterExtension\<lparr>nonce := 7\<rparr>) \<noteq> nonce afterExtension + 1"
    by (simp add: afterExtension_def)
  show ?thesis
    using SetTxSetState_nonce [OF i, of "afterExtension\<lparr>nonce := 7\<rparr>"] i n
    by (simp add: afterExtension_def)
qed






text \<open>
  C9. The writer can be made to read \<open>indexAtBlock\<close> out of range. A first value for an
  identifier with nonce 1 and an empty \<open>indexAtBlock\<close> makes \<open>IsValidBlockExtension\<close>
  read position \<open>len - 1\<close> of the empty list; and over a stored value with two entries, a
  value with the next nonce, the same \<open>introBlock\<close> and \<open>index\<close> and one entry only makes
  its comparison loop read position 1 of a list of length 1. Both calls panic instead of
  returning an error. The stored value of the second call is one the writer accepts for a
  new set.
\<close>

theorem SetTxSetState_index_out_of_range:
  "nonce emptyNew = nonce zeroTxSetStateValue + 1
   \<and> indexAtBlock emptyNew = []
   \<and> SetTxSetState (ledgerAt 3 []) ''A'' (Some emptyNew)
       = (Panicked IndexOutOfRangeNegative, ledgerAt 3 [])
   \<and> nonce shortNew = nonce longPrev + 1
   \<and> introBlock shortNew = introBlock longPrev
   \<and> index shortNew = index longPrev
   \<and> length (indexAtBlock shortNew) < length (indexAtBlock longPrev)
   \<and> SetTxSetState (ledgerAt 6 [(''A'', longPrev)]) ''A'' (Some shortNew)
       = (Panicked (IndexOutOfRange 1 1), ledgerAt 6 [(''A'', longPrev)])
   \<and> fst (SetTxSetState (openLedger 5 [] ''A'') ''A'' (Some longPrev)) = Ok ()"
  by (simp add: openLedger_def ledger_defs store_defs exec_defs emptyNew_def longPrev_def
      shortNew_def)

section \<open>The tx-set state store\<close>

text \<open>
  C7. \<open>Get(k, committed = false)\<close> returns the value of the update the per-transaction
  delta records for \<open>k\<close>, if it records one; otherwise the value of the update the
  per-block delta records, if it records one; otherwise what the backing store returns.
  \<open>Get(k, committed = true)\<close> returns what the backing store returns, whatever is staged.
\<close>

theorem TxSetState_Get_layers:
  "(\<forall>uv. TxSetStateDelta_Get (currentTxSetStateDelta state) txID = Some uv \<longrightarrow>
          TxSetState_Get state txID False = Inr (Value uv))
   \<and> (\<forall>uv. TxSetStateDelta_Get (currentTxSetStateDelta state) txID = None
            \<and> TxSetStateDelta_Get (txSetStateDelta state) txID = Some uv \<longrightarrow>
          TxSetState_Get state txID False = Inr (Value uv))
   \<and> (TxSetStateDelta_Get (currentTxSetStateDelta state) txID = None
        \<and> TxSetStateDelta_Get (txSetStateDelta state) txID = None \<longrightarrow>
          TxSetState_Get state txID False = txSetStateImpl state txID)
   \<and> TxSetState_Get state txID True = txSetStateImpl state txID"
  by (simp add: TxSetState_Get_def)

text \<open>
  In \<open>layeredState\<close> the set \<open>A\<close> is read from the per-transaction delta, \<open>B\<close> from the
  per-block delta, \<open>C\<close> from the backing store, and the committed read of \<open>A\<close> from the
  backing store.
\<close>

theorem TxSetState_Get_layers_witness:
  "TxSetState_Get layeredState ''A'' False
     = Inr (Some (afterIntroduction\<lparr>nonce := 2, index := 2\<rparr>))
   \<and> TxSetState_Get layeredState ''B'' False
       = Inr (Some (afterIntroduction\<lparr>nonce := 2, index := 0\<rparr>))
   \<and> TxSetState_Get layeredState ''C'' False = Inr (Some afterIntroduction)
   \<and> TxSetState_Get layeredState ''A'' True = Inr (Some afterIntroduction)"
  using TxSetState_Get_layers [of layeredState "''A''"]
    TxSetState_Get_layers [of layeredState "''B''"]
    TxSetState_Get_layers [of layeredState "''C''"]
  by (simp add: layeredState_def ledger_defs TxSetStateDelta_Get_def TxSetStateDelta_Set_def)




text \<open>
  The loop of \<open>GetOlderBlockMod\<close> over identifiers that all have an update, none of them
  a mutant-bearing update without a value: it returns the minimum of the accumulator (when
  set) and of the \<open>introBlock\<close> of the new values of the mutant-bearing updates.
\<close>

lemma finite_mutantIntroBlocksOf: "finite ids \<Longrightarrow> finite (mutantIntroBlocksOf delta ids)"
proof -
  assume f: "finite ids"
  have "mutantIntroBlocksOf delta ids \<subseteq>
          (\<lambda>stID. introBlock (the (Value (the (GetUpdates delta stID))))) ` ids"
    by (auto simp add: mutantIntroBlocksOf_def image_iff) force
  then show ?thesis using f by (meson finite_imageI finite_subset)
qed

lemma mutantIntroBlocksOf_skip:
  "GetUpdates delta stID = Some uv \<Longrightarrow> \<not> IsMutant uv \<Longrightarrow>
   mutantIntroBlocksOf delta (insert stID ids) = mutantIntroBlocksOf delta ids"
  by (auto simp add: mutantIntroBlocksOf_def)

lemma mutantIntroBlocksOf_take:
  "GetUpdates delta stID = Some uv \<Longrightarrow> IsMutant uv \<Longrightarrow> Value uv = Some v \<Longrightarrow>
   mutantIntroBlocksOf delta (insert stID ids)
     = insert (introBlock v) (mutantIntroBlocksOf delta ids)"
  by (auto simp add: mutantIntroBlocksOf_def)

lemma Min_insert_min:
  fixes a b :: u64
  assumes "finite A"
  shows "Min (insert a (insert b A)) = Min (insert (min b a) A)"
proof (cases "A = {}")
  case True
  then show ?thesis by (simp add: min.commute)
next
  case False
  then show ?thesis using assms by (simp add: min.assoc min.commute min.left_commute)
qed

lemma olderBlockModLoop_Min:
  assumes "\<forall>stID \<in> set ids. \<exists>uv. GetUpdates delta stID = Some uv
             \<and> (IsMutant uv \<longrightarrow> Value uv \<noteq> None)"
  shows "olderBlockModLoop delta ids (older, isSet) =
           Ok (if isSet then Min (insert older (mutantIntroBlocksOf delta (set ids)))
               else if mutantIntroBlocksOf delta (set ids) = {} then older
               else Min (mutantIntroBlocksOf delta (set ids)),
               isSet \<or> mutantIntroBlocksOf delta (set ids) \<noteq> {})"
  using assms
proof (induction ids arbitrary: older isSet)
  case Nil
  then show ?case by (simp add: mutantIntroBlocksOf_def)
next
  case (Cons stID ids)
  from Cons.prems obtain uv where uv: "GetUpdates delta stID = Some uv"
    and nn: "IsMutant uv \<longrightarrow> Value uv \<noteq> None" by auto
  have rest: "\<forall>stID \<in> set ids. \<exists>uv. GetUpdates delta stID = Some uv
                \<and> (IsMutant uv \<longrightarrow> Value uv \<noteq> None)"
    using Cons.prems by simp
  note IH = Cons.IH [OF rest]
  have fin: "finite (mutantIntroBlocksOf delta (set ids))"
    by (simp add: finite_mutantIntroBlocksOf)
  show ?case
  proof (cases "IsMutant uv")
    case False
    then show ?thesis
      using uv IH [of older isSet] mutantIntroBlocksOf_skip [OF uv False, of "set ids"]
      by simp
  next
    case True
    then obtain v where v: "Value uv = Some v" using nn by auto
    have M: "mutantIntroBlocksOf delta (set (stID # ids))
               = insert (introBlock v) (mutantIntroBlocksOf delta (set ids))"
      using mutantIntroBlocksOf_take [OF uv True v, of "set ids"] by simp
    show ?thesis
    proof (cases isSet)
      case s: True
      have "(if introBlock v < older then introBlock v else older) = min (introBlock v) older"
        by (simp add: min_def not_less less_le)
      then show ?thesis
        using uv True v s M fin IH [of "min (introBlock v) older" True]
          Min_insert_min [OF fin, of older "introBlock v"]
        by (simp add: Let_def)
    next
      case s: False
      then show ?thesis using uv True v M fin IH [of "introBlock v" True]
        by (simp add: Let_def)
    qed
  qed
qed

lemma GetUpdatedTxSetIDs_set: "set (GetUpdatedTxSetIDs delta) = dom (map_of delta)"
  by (simp add: GetUpdatedTxSetIDs_def dom_map_of_conv_image_fst)

text \<open>
  C8 (amended). When every mutant-bearing update of the per-block delta carries a new
  value, \<open>GetOlderBlockMod\<close> returns the smallest \<open>introBlock\<close> of the new values
  (\<open>updates.Value.IntroBlock\<close>) of the updates whose \<open>isMutant\<close> flag is true, with the
  second result true; and it returns 0 with the second result false exactly when no
  update of the delta has \<open>isMutant = true\<close>.
\<close>

theorem GetOlderBlockMod_smallest:
  assumes "\<forall>stID uv. GetUpdates (txSetStateDelta state) stID = Some uv \<and> IsMutant uv
             \<longrightarrow> Value uv \<noteq> None"
  shows "GetOlderBlockMod state =
           Ok (if mutantIntroBlocks (txSetStateDelta state) = {} then (0, False)
               else (Min (mutantIntroBlocks (txSetStateDelta state)), True))
       \<and> (mutantIntroBlocks (txSetStateDelta state) = {} \<longleftrightarrow>
            \<not> (\<exists>stID uv. GetUpdates (txSetStateDelta state) stID = Some uv \<and> IsMutant uv))"
proof -
  let ?d = "txSetStateDelta state"
  have pre: "\<forall>stID \<in> set (GetUpdatedTxSetIDs ?d). \<exists>uv. GetUpdates ?d stID = Some uv
               \<and> (IsMutant uv \<longrightarrow> Value uv \<noteq> None)"
    using assms by (auto simp add: GetUpdatedTxSetIDs_set GetUpdates_def)
  have eqM: "mutantIntroBlocksOf ?d (set (GetUpdatedTxSetIDs ?d)) = mutantIntroBlocks ?d"
    by (auto simp add: mutantIntroBlocks_def mutantIntroBlocksOf_def GetUpdatedTxSetIDs_set
        GetUpdates_def)
  have a: "GetOlderBlockMod state =
           Ok (if mutantIntroBlocks ?d = {} then (0, False)
               else (Min (mutantIntroBlocks ?d), True))"
    using olderBlockModLoop_Min [OF pre, of 0 False] eqM by (simp add: GetOlderBlockMod_def)
  have b: "mutantIntroBlocks ?d = {} \<longleftrightarrow>
            \<not> (\<exists>stID uv. GetUpdates ?d stID = Some uv \<and> IsMutant uv)"
  proof
    assume e: "mutantIntroBlocks ?d = {}"
    show "\<not> (\<exists>stID uv. GetUpdates ?d stID = Some uv \<and> IsMutant uv)"
    proof
      assume "\<exists>stID uv. GetUpdates ?d stID = Some uv \<and> IsMutant uv"
      then obtain stID uv where u: "GetUpdates ?d stID = Some uv" "IsMutant uv" by blast
      then obtain v where "Value uv = Some v" using assms by blast
      then have "introBlock v \<in> mutantIntroBlocks ?d"
        using u by (auto simp add: mutantIntroBlocks_def mutantIntroBlocksOf_def)
      then show False using e by simp
    qed
  next
    assume "\<not> (\<exists>stID uv. GetUpdates ?d stID = Some uv \<and> IsMutant uv)"
    then show "mutantIntroBlocks ?d = {}"
      by (auto simp add: mutantIntroBlocks_def mutantIntroBlocksOf_def)
  qed
  show ?thesis using a b by simp
qed

text \<open>
  In \<open>mixedState\<close> the mutations concern sets introduced in blocks 3 and 2 and the
  extension a set introduced in block 1: the replay starts at block 2. With nothing in the
  delta there is no block to replay from.
\<close>

theorem GetOlderBlockMod_smallest_witness:
  "GetOlderBlockMod mixedState = Ok (2, True)
   \<and> mutantIntroBlocks (txSetStateDelta mixedState) \<noteq> {}
   \<and> Min (mutantIntroBlocks (txSetStateDelta mixedState)) = 2
   \<and> GetOlderBlockMod (stateOver []) = Ok (0, False)
   \<and> mutantIntroBlocks (txSetStateDelta (stateOver [])) = {}"
proof -
  have h: "\<forall>stID uv. GetUpdates (txSetStateDelta mixedState) stID = Some uv \<and> IsMutant uv
             \<longrightarrow> Value uv \<noteq> None"
    by (auto simp add: mixedState_def GetUpdates_def split: if_splits)
  have h0: "\<forall>stID uv. GetUpdates (txSetStateDelta (stateOver [])) stID = Some uv \<and> IsMutant uv
             \<longrightarrow> Value uv \<noteq> None"
    by (simp add: ledger_defs GetUpdates_def)
  have e: "GetOlderBlockMod mixedState = Ok (2, True)"
    by (simp add: GetOlderBlockMod_def GetUpdatedTxSetIDs_def GetUpdates_def mixedState_def
        afterExtension_def afterIntroduction_def Let_def)
  have e0: "GetOlderBlockMod (stateOver []) = Ok (0, False)"
    by (simp add: GetOlderBlockMod_def GetUpdatedTxSetIDs_def ledger_defs)
  have m: "mutantIntroBlocks (txSetStateDelta mixedState) \<noteq> {}
           \<and> Min (mutantIntroBlocks (txSetStateDelta mixedState)) = 2"
    using GetOlderBlockMod_smallest [OF h] e
    by (cases "mutantIntroBlocks (txSetStateDelta mixedState) = {}") simp_all
  have m0: "mutantIntroBlocks (txSetStateDelta (stateOver [])) = {}"
    using GetOlderBlockMod_smallest [OF h0] e0
    by (cases "mutantIntroBlocks (txSetStateDelta (stateOver [])) = {}") simp_all
  show ?thesis using e e0 m m0 by simp
qed

text \<open>
  The block returned is read from the new value of the update, not from the previous one.
  The writer accepts \<open>movedIntro\<close> over \<open>atGenesis\<close> (the \<open>introBlock\<close> of a set
  introduced in block 0 is not frozen) and the update is mutant-bearing; its previous
  value was introduced in block 0, and \<open>GetOlderBlockMod\<close> returns block 5.
\<close>

theorem GetOlderBlockMod_previous_counterexample:
  "fst (SetTxSetState (openLedger 6 [(''G'', atGenesis)] ''w1'') ''G'' (Some movedIntro)) = Ok ()
   \<and> txSetStateDelta (txSetState afterMovedIntro)
       = [(''G'', \<lparr>PreviousValue = Some atGenesis, Value = Some movedIntro, IsMutant = True\<rparr>)]
   \<and> introBlock atGenesis = 0
   \<and> introBlock movedIntro = 5
   \<and> GetOlderBlockMod (txSetState afterMovedIntro) = Ok (5, True)
   \<and> GetOlderTBModBlock afterMovedIntro = Ok (5, True)"
  by (simp add: afterMovedIntro_def atGenesis_def movedIntro_def openLedger_def ledger_defs
      store_defs exec_defs
      GetOlderTBModBlock_def GetOlderBlockMod_def GetUpdatedTxSetIDs_def GetUpdates_def)

section \<open>Execute\<close>













text \<open>
  C3 (amended). For an extension (\<open>extend = true\<close>) whose identifier has no state
  (\<open>GetTxSetState(id, false)\<close> returns nil): with no candidate \<open>Execute\<close> fails with "At
  least a transaction to execute should be provided."; with two candidates or more, on a
  ledger that is not resetting, it fails with "Cannot extend a non existent transactions
  set."; during a replay, with one candidate or more, it returns without error. In each of
  these cases the ledger is left as it was and nothing is handed to the VM.
\<close>

theorem Execute_extension_without_state:
  assumes "Transaction inBlockTx = InBlockTransaction_TransactionSet ts" and "Extend ts"
    and "GetTxSetState ledger (Txid inBlockTx) False = Inr None"
  shows "(length (Transactions ts) = 0 \<longrightarrow>
            Execute vm ledger inBlockTx = (Failed AtLeastATransaction, [], ledger))
       \<and> (2 \<le> length (Transactions ts) \<and> \<not> IsResetting ledger \<longrightarrow>
            Execute vm ledger inBlockTx = (Failed CannotExtendNonExistentSet, [], ledger))
       \<and> (1 \<le> length (Transactions ts) \<and> IsResetting ledger \<longrightarrow>
            Execute vm ledger inBlockTx = (Ok NoPayload, [], ledger))"
  using assms
  by (auto simp add: Execute_def executeTransactionSet_def executeDefault_def Let_def)

text \<open>
  Scenario S6 with two candidates, and the same extension without candidates.
\<close>

theorem Execute_extension_without_state_witness:
  "GetTxSetState (ledgerAt 3 []) ''Z'' False = Inr None
   \<and> Execute idleVM (ledgerAt 3 []) (txSetOf ''Z'' [''t3'', ''t4''] 0 True)
       = (Failed CannotExtendNonExistentSet, [], ledgerAt 3 [])
   \<and> Execute idleVM (ledgerAt 3 []) (txSetOf ''Z'' [] 0 True)
       = (Failed AtLeastATransaction, [], ledgerAt 3 [])"
proof -
  have g: "GetTxSetState (ledgerAt 3 []) ''Z'' False = Inr None"
    by (simp add: ledger_defs store_defs)
  have r: "\<not> IsResetting (ledgerAt 3 [])" by (simp add: IsResetting_def ledgerAt_def)
  show ?thesis
    using g r
      Execute_extension_without_state
        [of "txSetOf ''Z'' [''t3'', ''t4''] 0 True"
            "\<lparr>Transactions = [''t3'', ''t4''], DefaultInx = 0, Extend = True\<rparr>"
            "ledgerAt 3 []" idleVM]
      Execute_extension_without_state
        [of "txSetOf ''Z'' [] 0 True"
            "\<lparr>Transactions = [], DefaultInx = 0, Extend = True\<rparr>"
            "ledgerAt 3 []" idleVM]
    by (simp add: txSetOf_def)
qed

text \<open>
  An extension with a single candidate for an identifier without state, on a ledger that
  is not resetting, is not refused: \<open>Execute\<close> returns without error. Without a candidate
  the error is the one of the empty candidate list.
\<close>

theorem Execute_single_extension_counterexample:
  "GetTxSetState (ledgerAt 3 []) ''Z'' False = Inr None
   \<and> \<not> IsResetting (ledgerAt 3 [])
   \<and> Execute idleVM (ledgerAt 3 []) (txSetOf ''Z'' [''t3''] 0 True)
       = (Ok NoPayload, [], ledgerAt 3 [])
   \<and> Execute idleVM (ledgerAt 3 []) (txSetOf ''Z'' [] 0 True)
       = (Failed AtLeastATransaction, [], ledgerAt 3 [])"
  by (simp add: txSetOf_def ledger_defs store_defs exec_defs)

text \<open>
  C10. For a transaction set with an empty candidate list, \<open>Execute\<close> returns the error
  "At least a transaction to execute should be provided.", whatever the ledger holds and
  whatever the VM would do: the ledger it leaves is the ledger it was given, tx-set state
  and chaincode state included, and nothing is handed to the VM.
\<close>

theorem Execute_no_candidates:
  assumes "Transaction inBlockTx = InBlockTransaction_TransactionSet ts"
    and "Transactions ts = []"
  shows "Execute vm ledger inBlockTx = (Failed AtLeastATransaction, [], ledger)"
  using assms by (simp add: Execute_def executeTransactionSet_def)

theorem Execute_no_candidates_witness:
  "Execute idleVM (ledgerAt 3 [(''A'', afterIntroduction)])
     \<lparr>Txid = ''A'',
      Transaction = InBlockTransaction_TransactionSet
                      \<lparr>Transactions = [], DefaultInx = 0, Extend = False\<rparr>\<rparr>
   = (Failed AtLeastATransaction, [], ledgerAt 3 [(''A'', afterIntroduction)])"
  using Execute_no_candidates
    [of "\<lparr>Txid = ''A'',
          Transaction = InBlockTransaction_TransactionSet
                          \<lparr>Transactions = [], DefaultInx = 0, Extend = False\<rparr>\<rparr>"
        "\<lparr>Transactions = [], DefaultInx = 0, Extend = False\<rparr>"
        idleVM "ledgerAt 3 [(''A'', afterIntroduction)]"]
  by simp

end
